theory Spec2Isabelle
  imports Main "HOL-Library.Sublist"
begin

section \<open>JavaScript values\<close>

text \<open>
  The values that flow through the client: what a schema receives and returns, what a
  caller passes as params, query, body and headers, and the request descriptor handed to
  the transport. Strings are byte strings (the UTF-8 form of the JavaScript string).
  A number is an integer-valued number; \<open>String\<close> of it is its decimal numeral, which
  is what JavaScript prints for integers of magnitude below \<open>10^21\<close>.
  An object is a plain record: the list of its own enumerable properties in the order
  \<open>Object.entries\<close> lists them. Properties inherited from a prototype, and the
  index and \<open>length\<close> properties of arrays and strings, are not part of the model:
  params, query, headers and \<open>init\<close> are records by their declared types.
\<close>

datatype jsval =
    JUndefined
  | JNull
  | JBool bool
  | JNum int
  | JStr string
  | JArr "jsval list"
  | JObj "(string \<times> jsval) list"

type_synonym props = "(string \<times> jsval) list"

text \<open>\<open>v === undefined || v === null\<close>\<close>

fun nullish :: "jsval \<Rightarrow> bool" where
  "nullish JUndefined = True"
| "nullish JNull = True"
| "nullish _ = False"

text \<open>The truthiness test of \<open>if (v)\<close>, \<open>v ? a : b\<close> and \<open>!v\<close>.\<close>

fun truthy :: "jsval \<Rightarrow> bool" where
  "truthy JUndefined = False"
| "truthy JNull = False"
| "truthy (JBool b) = b"
| "truthy (JNum n) = (n \<noteq> 0)"
| "truthy (JStr s) = (s \<noteq> [])"
| "truthy (JArr _) = True"
| "truthy (JObj _) = True"

text \<open>
  Property read \<open>o[key]\<close>: the own property of a plain object, \<open>undefined\<close> when
  there is none, and \<open>undefined\<close> on every value that is not a plain object.
\<close>

fun get_prop :: "jsval \<Rightarrow> string \<Rightarrow> jsval" where
  "get_prop (JObj kvs) k = (case map_of kvs k of Some v \<Rightarrow> v | None \<Rightarrow> JUndefined)"
| "get_prop _ k = JUndefined"

text \<open>
  \<open>Object.entries(o)\<close>, and the properties an object spread \<open>{...o}\<close> copies:
  those of a plain object, none for \<open>undefined\<close>, \<open>null\<close> and the other values.
\<close>

fun entries :: "jsval \<Rightarrow> props" where
  "entries (JObj kvs) = kvs"
| "entries _ = []"

text \<open>
  Property write \<open>o[k] = v\<close>: an existing property keeps its place, a new one goes last.
\<close>

fun set_prop :: "props \<Rightarrow> string \<Rightarrow> jsval \<Rightarrow> props" where
  "set_prop [] k v = [(k, v)]"
| "set_prop ((k', v') # kvs) k v =
     (if k' = k then (k, v) # kvs else (k', v') # set_prop kvs k v)"

text \<open>
  \<open>Object.assign(target, source)\<close>, which is also what \<open>{...target, ...source}\<close>
  builds: every property of the source is written into the target, in order.
\<close>

fun object_assign :: "props \<Rightarrow> props \<Rightarrow> props" where
  "object_assign t [] = t"
| "object_assign t ((k, v) # src) = object_assign (set_prop t k v) src"

subsection \<open>Strings\<close>

definition digit_char :: "nat \<Rightarrow> char" where
  "digit_char d = char_of (48 + d)"

fun nat_to_dec :: "nat \<Rightarrow> string" where
  "nat_to_dec n =
     (if n < 10 then [digit_char n] else nat_to_dec (n div 10) @ [digit_char (n mod 10)])"

definition int_to_dec :: "int \<Rightarrow> string" where
  "int_to_dec i = (if i < 0 then CHR ''-'' # nat_to_dec (nat (- i)) else nat_to_dec (nat i))"

fun join_with :: "string \<Rightarrow> string list \<Rightarrow> string" where
  "join_with sep [] = []"
| "join_with sep [s] = s"
| "join_with sep (s # t # ss) = s @ sep @ join_with sep (t # ss)"

text \<open>
  \<open>String(v)\<close>. An array prints its elements joined by commas, with \<open>null\<close> and
  \<open>undefined\<close> elements printed as nothing; a plain object prints as
  \<open>[object Object]\<close>.
\<close>

fun String_js :: "jsval \<Rightarrow> string" where
  "String_js JUndefined = ''undefined''"
| "String_js JNull = ''null''"
| "String_js (JBool b) = (if b then ''true'' else ''false'')"
| "String_js (JNum n) = int_to_dec n"
| "String_js (JStr s) = s"
| "String_js (JArr xs) =
     join_with '','' (map (\<lambda>x. if nullish x then [] else String_js x) xs)"
| "String_js (JObj kvs) = ''[object Object]''"

definition is_upper :: "char \<Rightarrow> bool" where
  "is_upper c = (65 \<le> (of_char c :: nat) \<and> (of_char c :: nat) \<le> 90)"

definition is_lower :: "char \<Rightarrow> bool" where
  "is_lower c = (97 \<le> (of_char c :: nat) \<and> (of_char c :: nat) \<le> 122)"

definition is_digit :: "char \<Rightarrow> bool" where
  "is_digit c = (48 \<le> (of_char c :: nat) \<and> (of_char c :: nat) \<le> 57)"

definition is_alnum :: "char \<Rightarrow> bool" where
  "is_alnum c = (is_upper c \<or> is_lower c \<or> is_digit c)"

definition hex_char :: "nat \<Rightarrow> char" where
  "hex_char d = (if d < 10 then char_of (48 + d) else char_of (55 + d))"

text \<open>The escape \<open>%XX\<close> of one byte, with upper-case hexadecimal digits.\<close>

definition percent_byte :: "char \<Rightarrow> string" where
  "percent_byte c =
     [CHR ''%'', hex_char ((of_char c :: nat) div 16), hex_char ((of_char c :: nat) mod 16)]"

text \<open>
  \<open>encodeURIComponent\<close> (ECMAScript): every byte of the UTF-8 form is escaped except
  letters, digits and \<open>- _ . ! ~ * ' ( )\<close>.
\<close>

definition uri_unreserved :: "char \<Rightarrow> bool" where
  "uri_unreserved c = (is_alnum c \<or> c \<in> set ''-_.!~*'' \<or> c = CHR 0x27 \<or> c \<in> set ''()'')"

definition encodeURIComponent :: "string \<Rightarrow> string" where
  "encodeURIComponent s = concat (map (\<lambda>c. if uri_unreserved c then [c] else percent_byte c) s)"

text \<open>
  The \<open>application/x-www-form-urlencoded\<close> byte serializer of the URL standard, which
  \<open>URLSearchParams.toString\<close> applies to every name and value: a space becomes
  \<open>+\<close>, letters, digits and \<open>* - . _\<close> stay, every other byte is escaped.
\<close>

definition form_byte :: "char \<Rightarrow> string" where
  "form_byte c =
     (if c = CHR '' '' then ''+''
      else if is_alnum c \<or> c \<in> set ''*-._'' then [c]
      else percent_byte c)"

definition form_encode :: "string \<Rightarrow> string" where
  "form_encode s = concat (map form_byte s)"

text \<open>
  White space as \<open>String.prototype.trim\<close> strips it, restricted to the ASCII range
  (tab, line feed, vertical tab, form feed, carriage return, space).
\<close>

definition is_space :: "char \<Rightarrow> bool" where
  "is_space c = ((of_char c :: nat) \<in> {9, 10, 11, 12, 13, 32})"

definition trim_js :: "string \<Rightarrow> string" where
  "trim_js s = rev (dropWhile is_space (rev (dropWhile is_space s)))"

text \<open>\<open>toUpperCase\<close> on ASCII letters.\<close>

definition to_upper_char :: "char \<Rightarrow> char" where
  "to_upper_char c = (if is_lower c then char_of ((of_char c :: nat) - 32) else c)"

definition toUpperCase :: "string \<Rightarrow> string" where
  "toUpperCase s = map to_upper_char s"

text \<open>\<open>s.includes(sub)\<close>\<close>

definition includes_js :: "string \<Rightarrow> string \<Rightarrow> bool" where
  "includes_js s sub = list_ex (prefix sub) (suffixes s)"

section \<open>URL builder (https.ts)\<close>

text \<open>
  \<open>joinURL\<close>: an empty base gives the path back; otherwise one trailing slash of the
  base is dropped and the path gets a leading slash when it has none.
\<close>

definition endsWith_slash :: "string \<Rightarrow> bool" where
  "endsWith_slash s = (s \<noteq> [] \<and> last s = CHR ''/'')"

definition startsWith_slash :: "string \<Rightarrow> bool" where
  "startsWith_slash s = (s \<noteq> [] \<and> hd s = CHR ''/'')"

definition joinURL :: "string \<Rightarrow> string \<Rightarrow> string" where
  "joinURL base path =
     (if base = [] then path
      else
        let a = (if endsWith_slash base then butlast base else base);
            b = (if startsWith_slash path then path else CHR ''/'' # path)
        in a @ b)"

text \<open>
  What the specification asks of the join: base without its trailing slashes, one slash,
  path without its leading slashes.
\<close>

definition is_slash :: "char \<Rightarrow> bool" where
  "is_slash c = (c = CHR ''/'')"

definition joinBase_spec :: "string \<Rightarrow> string \<Rightarrow> string" where
  "joinBase_spec base path =
     rev (dropWhile is_slash (rev base)) @ ''/'' @ dropWhile is_slash path"

text \<open>
  \<open>buildPath\<close>: \<open>template.replace(/:([A-Za-z0-9_]+)/g, callback)\<close>. The template is
  scanned left to right; a colon followed by at least one name character starts a match
  that takes the longest run of name characters; the callback throws for a parameter that
  is \<open>undefined\<close> or \<open>null\<close> and otherwise gives the replacement, which is not
  scanned again. The result is \<open>Inl key\<close> when the callback throws for \<open>key\<close>.
\<close>

definition is_name_char :: "char \<Rightarrow> bool" where
  "is_name_char c = (is_alnum c \<or> c = CHR ''_'')"

function buildPath_scan :: "jsval \<Rightarrow> string \<Rightarrow> string + string" where
  "buildPath_scan params [] = Inr []"
| "buildPath_scan params (c # cs) =
     (if c = CHR '':'' \<and> takeWhile is_name_char cs \<noteq> [] then
        (let key = takeWhile is_name_char cs;
             v = get_prop params key
         in if nullish v then Inl key
            else (case buildPath_scan params (dropWhile is_name_char cs) of
                    Inl k \<Rightarrow> Inl k
                  | Inr rest \<Rightarrow> Inr (encodeURIComponent (String_js v) @ rest)))
      else (case buildPath_scan params cs of
              Inl k \<Rightarrow> Inl k
            | Inr rest \<Rightarrow> Inr (c # rest)))"
  by pat_completeness auto
termination
  by (relation "measure (\<lambda>(p, s). length s)")
     (auto simp: length_dropWhile_le less_Suc_eq_le)

subsection \<open>Errors\<close>

text \<open>
  \<open>ValidationError\<close> and \<open>ApiError\<close> of errors.ts, with the fields their
  constructors store. An optional field that was not assigned reads as \<open>undefined\<close>:
  \<open>rawText\<close> is \<open>None\<close> then, \<open>rawJson\<close> and \<open>parsedError\<close> are
  \<open>JUndefined\<close>.
\<close>

datatype error_kind = Request | Response

record validation_error =
  ve_message :: string
  ve_key :: string
  ve_url :: string
  ve_kind :: error_kind
  ve_issues :: jsval

record api_error =
  ae_message :: string
  ae_status :: int
  ae_key :: string
  ae_url :: string
  ae_rawText :: "string option"
  ae_rawJson :: jsval
  ae_parsedError :: jsval

text \<open>
  Everything a call can throw: the two structured errors, a plain \<open>Error\<close> with its
  message, and whatever a collaborator (base URL resolver, token supplier, header
  supplier, codec, hook, transport) throws, which the client never catches.
\<close>

datatype thrown =
    ValidationError validation_error
  | ApiError api_error
  | Error string
  | Thrown jsval

text \<open>The constructor of \<open>ApiError\<close>: optional arguments are copied when defined.\<close>

definition new_ApiError ::
  "string \<Rightarrow> int \<Rightarrow> string \<Rightarrow> string \<Rightarrow> string option \<Rightarrow> jsval \<Rightarrow> jsval \<Rightarrow> api_error" where
  "new_ApiError message status key url rawText rawJson parsedError =
     \<lparr> ae_message = message, ae_status = status, ae_key = key, ae_url = url,
       ae_rawText = rawText,
       ae_rawJson = (if rawJson \<noteq> JUndefined then rawJson else JUndefined),
       ae_parsedError = (if parsedError \<noteq> JUndefined then parsedError else JUndefined) \<rparr>"

definition new_ValidationError ::
  "string \<Rightarrow> string \<Rightarrow> string \<Rightarrow> error_kind \<Rightarrow> jsval \<Rightarrow> validation_error" where
  "new_ValidationError message key url kind issues =
     \<lparr> ve_message = message, ve_key = key, ve_url = url, ve_kind = kind,
       ve_issues = issues \<rparr>"

subsection \<open>Path interpolation and query encoding\<close>

definition buildPath :: "string \<Rightarrow> jsval \<Rightarrow> thrown + string" where
  "buildPath template params =
     (case buildPath_scan params template of
        Inl key \<Rightarrow> Inl (Error (''Missing path param \"'' @ key @ ''\"''))
      | Inr s \<Rightarrow> Inr s)"

text \<open>
  \<open>URLSearchParams\<close>: a list of name-value pairs. \<open>append\<close> adds a pair at the
  end; \<open>set\<close> overwrites the first pair of that name and removes the others of that
  name, or appends when there is none; \<open>toString\<close> joins the encoded pairs with
  \<open>&\<close>.
\<close>

type_synonym search_params = "(string \<times> string) list"

definition sp_append :: "search_params \<Rightarrow> string \<Rightarrow> string \<Rightarrow> search_params" where
  "sp_append sp k v = sp @ [(k, v)]"

fun sp_set :: "search_params \<Rightarrow> string \<Rightarrow> string \<Rightarrow> search_params" where
  "sp_set [] k v = [(k, v)]"
| "sp_set ((k', v') # sp) k v =
     (if k' = k then (k, v) # filter (\<lambda>(n, _). n \<noteq> k) sp else (k', v') # sp_set sp k v)"

definition sp_toString :: "search_params \<Rightarrow> string" where
  "sp_toString sp = join_with ''&'' (map (\<lambda>(k, v). form_encode k @ ''='' @ form_encode v) sp)"

text \<open>The loop of \<open>buildQueryString\<close> over \<open>Object.entries(query)\<close>.\<close>

fun query_loop :: "props \<Rightarrow> search_params \<Rightarrow> search_params" where
  "query_loop [] sp = sp"
| "query_loop ((k, v) # rest) sp =
     (if nullish v then query_loop rest sp
      else (case v of
              JArr items \<Rightarrow> query_loop rest (foldl (\<lambda>acc item. sp_append acc k (String_js item)) sp items)
            | _ \<Rightarrow> query_loop rest (sp_set sp k (String_js v))))"

definition buildQueryString :: "jsval \<Rightarrow> string" where
  "buildQueryString query =
     (let s = sp_toString (query_loop (entries query) [])
      in if s \<noteq> [] then CHR ''?'' # s else [])"

section \<open>Types of the client (types.ts)\<close>

text \<open>
  A \<open>RuntimeSchema\<close> is an object with \<open>parse(input)\<close>, which returns the parsed
  value or throws; \<open>Inl\<close> carries what it throws.
\<close>

type_synonym schema = "jsval \<Rightarrow> jsval + jsval"

datatype auth_mode = Public | Required

datatype content_type = Json | Text | NoContent

record endpoint_def =
  ep_auth :: auth_mode
  ep_params :: "schema option"
  ep_query :: "schema option"
  ep_body :: "schema option"
  ep_headers :: "schema option"
  ep_response :: schema
  ep_error :: "schema option"
  ep_contentType :: "content_type option"

type_synonym contract = "string \<Rightarrow> endpoint_def option"

text \<open>
  A callback of the client options is a function of no argument that returns or throws;
  \<open>Inl\<close> carries what it throws, and awaiting a rejected promise throws the same.
\<close>

datatype base_url = BaseString string | BaseFn "unit \<Rightarrow> jsval + string"

datatype auth_strategy =
    StrategyBearer "unit \<Rightarrow> jsval + string"
  | StrategyCookie
  | StrategyHeaders "unit \<Rightarrow> jsval + jsval"

datatype token_source = TokenString string | TokenFn "unit \<Rightarrow> jsval + string"

datatype auth_override =
    OverrideBearer token_source
  | OverrideCookie
  | OverrideHeaders "unit \<Rightarrow> jsval + jsval"

text \<open>The \<open>auth\<close> field of the call arguments: \<open>true | AuthOverride | undefined\<close>.\<close>

datatype auth_field = AuthUndefined | AuthTrue | AuthOverride auth_override

text \<open>
  The call arguments. An absent field is \<open>JUndefined\<close>; \<open>init\<close> is an object of raw
  transport options or \<open>JUndefined\<close>.
\<close>

record call_args =
  arg_params :: jsval
  arg_query :: jsval
  arg_body :: jsval
  arg_headers :: jsval
  arg_auth :: auth_field
  arg_signal :: jsval
  arg_init :: jsval

text \<open>
  What the client reads of a \<open>Response\<close>: status, status text, the
  \<open>content-type\<close> header (\<open>None\<close> when \<open>headers.get\<close> gives \<open>null\<close>) and the
  body text that \<open>text()\<close> resolves to (the one read of the body is taken to
  succeed). \<open>ok\<close> is the Fetch standard's: a status from 200 to 299.
\<close>

record response =
  rs_status :: int
  rs_statusText :: string
  rs_contentType :: "string option"
  rs_text :: string

definition rs_ok :: "response \<Rightarrow> bool" where
  "rs_ok r = (200 \<le> rs_status r \<and> rs_status r \<le> 299)"

text \<open>
  Hooks get the context \<open>{key, url, init}\<close> (and the response) and return a replacement,
  nothing (\<open>None\<close>), or throw. A hook that changes the descriptor or the response it
  was given in place counts as returning the changed one. The transport gets the URL and
  the request descriptor and returns a response or throws.
\<close>

type_synonym before_hook = "string \<Rightarrow> string \<Rightarrow> props \<Rightarrow> jsval + props option"

type_synonym after_hook =
  "string \<Rightarrow> string \<Rightarrow> props \<Rightarrow> response \<Rightarrow> jsval + response option"

type_synonym fetcher = "string \<Rightarrow> props \<Rightarrow> jsval + response"

text \<open>
  The client options, with the defaults of \<open>createClient\<close> already taken: the
  transport (\<open>options.fetcher ?? globalThis.fetch\<close>) and the two codecs
  (\<open>JSON.stringify\<close> and \<open>JSON.parse\<close> unless given) are parameters; absent hook
  lists are empty.
\<close>

record client_options =
  opt_baseUrl :: "base_url option"
  opt_fetcher :: fetcher
  opt_auth :: "auth_strategy option"
  opt_beforeRequest :: "before_hook list"
  opt_afterResponse :: "after_hook list"
  opt_encodeJson :: "jsval \<Rightarrow> jsval + jsval"
  opt_decodeJson :: "string \<Rightarrow> jsval + jsval"

section \<open>The client (client.ts)\<close>

text \<open>Sequencing of steps that may throw.\<close>

definition andThen :: "thrown + 'a \<Rightarrow> ('a \<Rightarrow> thrown + 'b) \<Rightarrow> thrown + 'b" where
  "andThen m f = (case m of Inl e \<Rightarrow> Inl e | Inr x \<Rightarrow> f x)"

text \<open>What a collaborator throws propagates unchanged.\<close>

definition await :: "jsval + 'a \<Rightarrow> thrown + 'a" where
  "await r = (case r of Inl e \<Rightarrow> Inl (Thrown e) | Inr x \<Rightarrow> Inr x)"

definition indexOf_space :: "string \<Rightarrow> nat option" where
  "indexOf_space s =
     (if CHR '' '' \<in> set s then Some (length (takeWhile (\<lambda>c. c \<noteq> CHR '' '') s)) else None)"

definition parseKey :: "string \<Rightarrow> thrown + string \<times> string" where
  "parseKey key =
     (case indexOf_space key of
        None \<Rightarrow> Inl (Error (''Invalid Endpoint key \"'' @ key @ ''\". Expected \"METHOD /path\"''))
      | Some index \<Rightarrow>
          Inr (toUpperCase (trim_js (take index key)), trim_js (drop (index + 1) key)))"

definition resolveBaseUrl :: "base_url option \<Rightarrow> thrown + string" where
  "resolveBaseUrl base =
     (case base of
        None \<Rightarrow> Inr []
      | Some (BaseString s) \<Rightarrow> Inr s
      | Some (BaseFn f) \<Rightarrow> await (f ()))"

text \<open>\<open>token ? { Authorization: `Bearer ${token}` } : {}\<close>\<close>

definition bearer_headers :: "string \<Rightarrow> jsval" where
  "bearer_headers token =
     (if token \<noteq> [] then JObj [(''Authorization'', JStr (''Bearer '' @ token))] else JObj [])"

definition resolveAuthHeaders :: "auth_strategy option \<Rightarrow> thrown + jsval" where
  "resolveAuthHeaders strategy =
     (case strategy of
        None \<Rightarrow> Inr (JObj [])
      | Some StrategyCookie \<Rightarrow> Inr (JObj [])
      | Some (StrategyBearer token) \<Rightarrow>
          andThen (await (token ())) (\<lambda>t. Inr (bearer_headers t))
      | Some (StrategyHeaders getHeaders) \<Rightarrow>
          andThen (await (getHeaders ())) (\<lambda>h. Inr (if nullish h then JObj [] else h)))"

definition resolveOverrideAuthHeaders :: "auth_override \<Rightarrow> thrown + jsval" where
  "resolveOverrideAuthHeaders override =
     (case override of
        OverrideCookie \<Rightarrow> Inr (JObj [])
      | OverrideBearer t \<Rightarrow>
          andThen (case t of TokenString s \<Rightarrow> Inr s | TokenFn f \<Rightarrow> await (f ()))
            (\<lambda>token. Inr (bearer_headers token))
      | OverrideHeaders getHeaders \<Rightarrow>
          andThen (await (getHeaders ())) (\<lambda>h. Inr (if nullish h then JObj [] else h)))"

datatype parse_result = ParseOk jsval | ParseFailed jsval

definition tryToParse :: "schema \<Rightarrow> jsval \<Rightarrow> parse_result" where
  "tryToParse schema input =
     (case schema input of Inr v \<Rightarrow> ParseOk v | Inl e \<Rightarrow> ParseFailed e)"

definition safeJSON :: "(string \<Rightarrow> jsval + jsval) \<Rightarrow> string \<Rightarrow> jsval" where
  "safeJSON decodeJson text = (case decodeJson text of Inr v \<Rightarrow> v | Inl e \<Rightarrow> JUndefined)"

definition getEndpoint :: "contract \<Rightarrow> string \<Rightarrow> thrown + endpoint_def" where
  "getEndpoint c key =
     (case c key of
        None \<Rightarrow> Inl (Error (''Unknown endpoint key: '' @ key))
      | Some d \<Rightarrow> Inr d)"

text \<open>
  One of the four input checks of \<open>call\<close>: a declared validator parses the argument;
  a failure throws the request \<open>ValidationError\<close> with the message of that field and
  the URL \<open>`${baseUrl}${pathTemplate}`\<close>; without a validator the parsed object
  stays \<open>undefined\<close>.
\<close>

definition checkInput ::
  "schema option \<Rightarrow> jsval \<Rightarrow> string \<Rightarrow> string \<Rightarrow> string \<Rightarrow> thrown + jsval" where
  "checkInput validator input message key url =
     (case validator of
        None \<Rightarrow> Inr JUndefined
      | Some sch \<Rightarrow>
          (case tryToParse sch input of
             ParseFailed issues \<Rightarrow>
               Inl (ValidationError (new_ValidationError message key url Request issues))
           | ParseOk v \<Rightarrow> Inr v))"

text \<open>The four checks in the order of the source: params, query, body, headers.\<close>

definition validateInputs ::
  "endpoint_def \<Rightarrow> string \<Rightarrow> string \<Rightarrow> string \<Rightarrow> call_args
    \<Rightarrow> thrown + jsval \<times> jsval \<times> jsval \<times> jsval" where
  "validateInputs d key baseUrl pathTemplate args =
     andThen (checkInput (ep_params d) (arg_params args) ''Invalid path params'' key
                (baseUrl @ pathTemplate)) (\<lambda>paramsObj.
     andThen (checkInput (ep_query d) (arg_query args) ''Invalid query'' key
                (baseUrl @ pathTemplate)) (\<lambda>queryObj.
     andThen (checkInput (ep_body d) (arg_body args) ''Invalid body'' key
                (baseUrl @ pathTemplate)) (\<lambda>bodyObj.
     andThen (checkInput (ep_headers d) (arg_headers args) ''Invalid headers'' key
                (baseUrl @ pathTemplate)) (\<lambda>headersObj.
     Inr (paramsObj, queryObj, bodyObj, headersObj)))))"

text \<open>The URL of the request: \<open>builtPath\<close>, \<open>qs\<close> and \<open>url\<close>.\<close>

definition requestUrl :: "string \<Rightarrow> string \<Rightarrow> jsval \<Rightarrow> jsval \<Rightarrow> thrown + string" where
  "requestUrl baseUrl pathTemplate paramsObj queryObj =
     andThen (if truthy paramsObj then buildPath pathTemplate paramsObj else Inr pathTemplate)
       (\<lambda>builtPath.
          let qs = (if truthy queryObj then buildQueryString queryObj else [])
          in Inr (joinURL baseUrl (builtPath @ qs)))"

text \<open>
  The auth step: for a \<open>required\<close> endpoint the headers of the override, when the
  \<open>auth\<close> argument is one, or else of the client's strategy, are assigned into
  \<open>h\<close>.
\<close>

definition authStep ::
  "endpoint_def \<Rightarrow> auth_field \<Rightarrow> auth_strategy option \<Rightarrow> props \<Rightarrow> thrown + props" where
  "authStep d authField defaultAuth h =
     (if ep_auth d = Required then
        (case authField of
           AuthOverride override \<Rightarrow>
             andThen (resolveOverrideAuthHeaders override) (\<lambda>a. Inr (object_assign h (entries a)))
         | _ \<Rightarrow>
             andThen (resolveAuthHeaders defaultAuth) (\<lambda>a. Inr (object_assign h (entries a))))
      else Inr h)"

text \<open>\<open>h["Content-Type"] = h["Content-Type"] ?? dflt\<close>\<close>

definition defaultContentType :: "props \<Rightarrow> string \<Rightarrow> props" where
  "defaultContentType h dflt =
     set_prop h ''Content-Type''
       (if nullish (get_prop (JObj h) ''Content-Type'') then JStr dflt
        else get_prop (JObj h) ''Content-Type'')"

text \<open>The body step: the content type of the endpoint, the header and the encoded body.\<close>

definition serializeBody ::
  "endpoint_def \<Rightarrow> (jsval \<Rightarrow> jsval + jsval) \<Rightarrow> jsval \<Rightarrow> props \<Rightarrow> thrown + props \<times> jsval" where
  "serializeBody d encodeJson bodyObj h =
     (let contentType =
            (case ep_contentType d of
               Some c \<Rightarrow> c
             | None \<Rightarrow> (case ep_body d of Some _ \<Rightarrow> Json | None \<Rightarrow> NoContent))
      in if contentType = Json \<and> bodyObj \<noteq> JUndefined then
           andThen (await (encodeJson bodyObj))
             (\<lambda>body. Inr (defaultContentType h ''application/json'', body))
         else if contentType = Text \<and> bodyObj \<noteq> JUndefined then
           Inr (defaultContentType h ''text/plain'', JStr (String_js bodyObj))
         else Inr (h, JUndefined))"

text \<open>
  The request descriptor \<open>{method, headers: h, body, signal, ...args.init}\<close>.
\<close>

definition pipelineInit :: "string \<Rightarrow> props \<Rightarrow> jsval \<Rightarrow> jsval \<Rightarrow> props" where
  "pipelineInit method h body signal =
     [(''method'', JStr method), (''headers'', JObj h), (''body'', body), (''signal'', signal)]"

definition requestInit :: "string \<Rightarrow> props \<Rightarrow> jsval \<Rightarrow> jsval \<Rightarrow> jsval \<Rightarrow> props" where
  "requestInit method h body signal init =
     object_assign (pipelineInit method h body signal) (entries init)"

fun runBefore :: "before_hook list \<Rightarrow> string \<Rightarrow> string \<Rightarrow> props \<Rightarrow> thrown + props" where
  "runBefore [] key url init = Inr init"
| "runBefore (fn # fns) key url init =
     (case fn key url init of
        Inl e \<Rightarrow> Inl (Thrown e)
      | Inr None \<Rightarrow> runBefore fns key url init
      | Inr (Some replacement) \<Rightarrow> runBefore fns key url replacement)"

fun runAfter ::
  "after_hook list \<Rightarrow> string \<Rightarrow> string \<Rightarrow> props \<Rightarrow> response \<Rightarrow> thrown + response" where
  "runAfter [] key url init response = Inr response"
| "runAfter (fn # fns) key url init response =
     (case fn key url init response of
        Inl e \<Rightarrow> Inl (Thrown e)
      | Inr None \<Rightarrow> runAfter fns key url init response
      | Inr (Some replacement) \<Rightarrow> runAfter fns key url init replacement)"

text \<open>
  \<open>call\<close> up to the dispatch: endpoint lookup, key parsing, base URL, input checks,
  URL, headers, auth, body, descriptor and the pre-request hooks. The result is the
  endpoint, the URL and the descriptor that go to the transport.
\<close>

definition prepare ::
  "contract \<Rightarrow> client_options \<Rightarrow> string \<Rightarrow> call_args
    \<Rightarrow> thrown + endpoint_def \<times> string \<times> props" where
  "prepare c options key args =
     andThen (getEndpoint c key) (\<lambda>d.
     andThen (parseKey key) (\<lambda>(method, pathTemplate).
     andThen (resolveBaseUrl (opt_baseUrl options)) (\<lambda>baseUrl.
     andThen (validateInputs d key baseUrl pathTemplate args)
       (\<lambda>(paramsObj, queryObj, bodyObj, headersObj).
     andThen (requestUrl baseUrl pathTemplate paramsObj queryObj) (\<lambda>url.
     andThen (authStep d (arg_auth args) (opt_auth options)
                (entries (if nullish headersObj then JObj [] else headersObj))) (\<lambda>h.
     andThen (serializeBody d (opt_encodeJson options) bodyObj h) (\<lambda>(h', body).
     andThen (runBefore (opt_beforeRequest options) key url
                (requestInit method h' body (arg_signal args) (arg_init args))) (\<lambda>init.
     Inr (d, url, init)))))))))"

text \<open>The content sniffing and decoding of the response body.\<close>

definition isLikelyJson :: "response \<Rightarrow> bool" where
  "isLikelyJson r =
     (rs_text r \<noteq> [] \<and>
      ((case rs_contentType r of Some ct \<Rightarrow> includes_js ct ''application/json'' | None \<Rightarrow> False)
       \<or> prefix ''{'' (trim_js (rs_text r))
       \<or> prefix ''['' (trim_js (rs_text r))))"

definition decodeBody :: "(string \<Rightarrow> jsval + jsval) \<Rightarrow> response \<Rightarrow> jsval" where
  "decodeBody decodeJson r =
     (if isLikelyJson r then safeJSON decodeJson (rs_text r) else JUndefined)"

text \<open>
  \<open>call\<close> from the body read on: an \<open>ApiError\<close> for a response that is not
  \<open>ok\<close>, otherwise the response schema applied to the decoded JSON or to the text.
\<close>

definition classify ::
  "endpoint_def \<Rightarrow> (string \<Rightarrow> jsval + jsval) \<Rightarrow> string \<Rightarrow> string \<Rightarrow> response \<Rightarrow> thrown + jsval" where
  "classify d decodeJson key url r =
     (let text = rs_text r;
          rawJson = decodeBody decodeJson r
      in if \<not> rs_ok r then
           (let parsedError =
                  (case ep_error d of
                     None \<Rightarrow> JUndefined
                   | Some sch \<Rightarrow>
                       if rawJson \<noteq> JUndefined then
                         (case tryToParse sch rawJson of
                            ParseOk v \<Rightarrow> v
                          | ParseFailed _ \<Rightarrow> JUndefined)
                       else JUndefined)
            in Inl (ApiError (new_ApiError
                  (''API request failed: '' @ int_to_dec (rs_status r) @ '' '' @ rs_statusText r)
                  (rs_status r) key url
                  (if text \<noteq> [] then Some text else None)
                  rawJson parsedError)))
         else
           (case tryToParse (ep_response d) (if rawJson \<noteq> JUndefined then rawJson else JStr text) of
              ParseFailed issues \<Rightarrow>
                Inl (ValidationError
                  (new_ValidationError ''Response validation failed'' key url Response issues))
            | ParseOk v \<Rightarrow> Inr v))"

text \<open>
  \<open>call\<close>: the outcome (the returned value or what is thrown) and the log of the
  invocations of the transport, each with the URL and the descriptor it received.
\<close>

definition call ::
  "contract \<Rightarrow> client_options \<Rightarrow> string \<Rightarrow> call_args
    \<Rightarrow> (thrown + jsval) \<times> (string \<times> props) list" where
  "call c options key args =
     (case prepare c options key args of
        Inl e \<Rightarrow> (Inl e, [])
      | Inr (d, url, init) \<Rightarrow>
          (case opt_fetcher options url init of
             Inl e \<Rightarrow> (Inl (Thrown e), [(url, init)])
           | Inr response0 \<Rightarrow>
               (andThen (runAfter (opt_afterResponse options) key url init response0)
                  (\<lambda>response. classify d (opt_decodeJson options) key url response),
                [(url, init)])))"

section \<open>The specification's wording, for comparison\<close>

text \<open>
  The query encoding as the specification describes it: the entries of the mapping in
  order, an array-valued entry as one pair per element under the same key, a
  \<open>null\<close> or \<open>undefined\<close> entry dropped, any other value stringified; the
  string is empty when no pair remains and otherwise a question mark followed by the
  encoded pairs joined with \<open>&\<close>.
\<close>

definition encodeQuery_entries :: "props \<Rightarrow> search_params" where
  "encodeQuery_entries q =
     concat (map (\<lambda>(k, v). if nullish v then []
                            else (case v of
                                    JArr items \<Rightarrow> map (\<lambda>item. (k, String_js item)) items
                                  | _ \<Rightarrow> [(k, String_js v)])) q)"

definition encodeQuery_spec :: "props \<Rightarrow> string" where
  "encodeQuery_spec q =
     (if encodeQuery_entries q = [] then []
      else ''?'' @ join_with ''&''
             (map (\<lambda>(k, v). form_encode k @ ''='' @ form_encode v) (encodeQuery_entries q)))"








section \<open>Example contracts and clients\<close>

text \<open>
  Schemas, endpoints and clients in the style of the repository's runtime tests: a
  schema that accepts every input, one that rejects every input with a given payload,
  and one that wants an object with a string under a given key.
\<close>

definition accept_any :: schema where
  "accept_any v = Inr v"

definition reject_with :: "jsval \<Rightarrow> schema" where
  "reject_with issues v = Inl issues"

definition requires_string :: "string \<Rightarrow> schema" where
  "requires_string k v =
     (case get_prop v k of
        JStr s \<Rightarrow> Inr (JObj [(k, JStr s)])
      | _ \<Rightarrow> Inl (JStr (k @ '': Required'')))"

definition public_endpoint :: endpoint_def where
  "public_endpoint =
     \<lparr> ep_auth = Public, ep_params = None, ep_query = None, ep_body = None,
       ep_headers = None, ep_response = accept_any, ep_error = None,
       ep_contentType = None \<rparr>"

definition single_contract :: "string \<Rightarrow> endpoint_def \<Rightarrow> contract" where
  "single_contract k d = (\<lambda>key. if key = k then Some d else None)"

definition example_response :: "int \<Rightarrow> string \<Rightarrow> response" where
  "example_response status text =
     \<lparr> rs_status = status, rs_statusText = ''status'',
       rs_contentType = Some ''application/json'', rs_text = text \<rparr>"

text \<open>A decoder that knows the bodies used in the examples and throws on anything else.\<close>

definition example_decodeJson :: "string \<Rightarrow> jsval + jsval" where
  "example_decodeJson t =
     (if t = ''{\"message\":\"nope\"}'' then Inr (JObj [(''message'', JStr ''nope'')])
      else if t = ''{\"id\":\"1\"}'' then Inr (JObj [(''id'', JStr ''1'')])
      else if t = ''{}'' then Inr (JObj [])
      else Inl (JStr ''SyntaxError''))"

text \<open>
  A client on \<open>https://x.test\<close> whose transport answers every request with the given
  response, without auth strategy and without hooks.
\<close>

definition example_options :: "response \<Rightarrow> client_options" where
  "example_options r =
     \<lparr> opt_baseUrl = Some (BaseString ''https://x.test''),
       opt_fetcher = (\<lambda>url init. Inr r),
       opt_auth = None,
       opt_beforeRequest = [],
       opt_afterResponse = [],
       opt_encodeJson = (\<lambda>v. Inr (JStr ''<json>'')),
       opt_decodeJson = example_decodeJson \<rparr>"

definition no_args :: call_args where
  "no_args =
     \<lparr> arg_params = JUndefined, arg_query = JUndefined, arg_body = JUndefined,
       arg_headers = JUndefined, arg_auth = AuthUndefined, arg_signal = JUndefined,
       arg_init = JUndefined \<rparr>"



text \<open>
  The four request fields in the order the client checks them, with the validator, the
  argument and the error message of each; whether the declared validator of a field
  rejects its argument, and with what payload; and the first field, in that order, that
  is rejected.
\<close>

datatype input_field = ParamsField | QueryField | BodyField | HeadersField

fun field_validator :: "endpoint_def \<Rightarrow> input_field \<Rightarrow> schema option" where
  "field_validator d ParamsField = ep_params d"
| "field_validator d QueryField = ep_query d"
| "field_validator d BodyField = ep_body d"
| "field_validator d HeadersField = ep_headers d"

fun field_argument :: "call_args \<Rightarrow> input_field \<Rightarrow> jsval" where
  "field_argument args ParamsField = arg_params args"
| "field_argument args QueryField = arg_query args"
| "field_argument args BodyField = arg_body args"
| "field_argument args HeadersField = arg_headers args"

fun field_message :: "input_field \<Rightarrow> string" where
  "field_message ParamsField = ''Invalid path params''"
| "field_message QueryField = ''Invalid query''"
| "field_message BodyField = ''Invalid body''"
| "field_message HeadersField = ''Invalid headers''"

definition field_result :: "endpoint_def \<Rightarrow> call_args \<Rightarrow> input_field \<Rightarrow> (jsval + jsval) option" where
  "field_result d args f =
     (case field_validator d f of None \<Rightarrow> None | Some sch \<Rightarrow> Some (sch (field_argument args f)))"

definition field_fails :: "endpoint_def \<Rightarrow> call_args \<Rightarrow> input_field \<Rightarrow> bool" where
  "field_fails d args f = (case field_result d args f of Some (Inl issues) \<Rightarrow> True | _ \<Rightarrow> False)"

definition field_issues :: "endpoint_def \<Rightarrow> call_args \<Rightarrow> input_field \<Rightarrow> jsval" where
  "field_issues d args f = (case field_result d args f of Some (Inl issues) \<Rightarrow> issues | _ \<Rightarrow> JUndefined)"

definition field_value :: "endpoint_def \<Rightarrow> call_args \<Rightarrow> input_field \<Rightarrow> jsval" where
  "field_value d args f = (case field_result d args f of Some (Inr v) \<Rightarrow> v | _ \<Rightarrow> JUndefined)"

definition first_failure :: "endpoint_def \<Rightarrow> call_args \<Rightarrow> input_field option" where
  "first_failure d args = find (field_fails d args) [ParamsField, QueryField, BodyField, HeadersField]"


text \<open>
  The resolved URL of a call, as \<open>call\<close> computes it after the input checks: the base
  URL joined with the interpolated path and the query string. And the URL that the
  request \<open>ValidationError\<close>s are given: base URL and path template, concatenated.
\<close>

definition resolvedUrl :: "contract \<Rightarrow> client_options \<Rightarrow> string \<Rightarrow> call_args \<Rightarrow> thrown + string" where
  "resolvedUrl c options key args =
     andThen (getEndpoint c key) (\<lambda>d.
     andThen (parseKey key) (\<lambda>(method, pathTemplate).
     andThen (resolveBaseUrl (opt_baseUrl options)) (\<lambda>baseUrl.
     andThen (validateInputs d key baseUrl pathTemplate args)
       (\<lambda>(paramsObj, queryObj, bodyObj, headersObj).
     requestUrl baseUrl pathTemplate paramsObj queryObj))))"

definition templateUrl :: "client_options \<Rightarrow> string \<Rightarrow> thrown + string" where
  "templateUrl options key =
     andThen (parseKey key) (\<lambda>(method, pathTemplate).
     andThen (resolveBaseUrl (opt_baseUrl options)) (\<lambda>baseUrl.
     Inr (baseUrl @ pathTemplate)))"

text \<open>The two structured error kinds.\<close>

fun structured :: "thrown \<Rightarrow> bool" where
  "structured (ValidationError ve) = True"
| "structured (ApiError ae) = True"
| "structured _ = False"

text \<open>
  An endpoint \<open>PUT /items/id/:id\<close> with validators for params (an \<open>id\<close>
  string), query (anything) and body (rejects), and an endpoint \<open>POST /items\<close>
  with an error schema that wants a \<open>message\<close> string.
\<close>

definition put_item_contract :: contract where
  "put_item_contract =
     single_contract ''PUT /items/id/:id''
       (public_endpoint\<lparr>ep_params := Some (requires_string ''id''),
                         ep_query := Some accept_any,
                         ep_body := Some (reject_with (JStr ''body issues''))\<rparr>)"

definition put_item_args :: call_args where
  "put_item_args =
     no_args\<lparr>arg_params := JObj [(''id'', JStr ''1'')], arg_query := JObj [(''q'', JStr ''x'')]\<rparr>"

definition post_items_contract :: contract where
  "post_items_contract =
     single_contract ''POST /items''
       (public_endpoint\<lparr>ep_response := requires_string ''id'',
                         ep_error := Some (requires_string ''message'')\<rparr>)"








section \<open>Properties\<close>

subsection \<open>joinURL\<close>

text \<open>
  C8, as the code has it: an empty base gives the path back unchanged (no slash is added);
  for a base that is not empty and has at most one trailing slash, and a path with at most
  one leading slash, the result is the base without its trailing slash, one slash, and
  the path without its leading slash. Only one trailing slash of the base is ever
  removed and no leading slash of the path is, so further slashes stay in the result.
\<close>

theorem joinURL_single_slash:
  "(base = [] \<longrightarrow> joinURL base path = path) \<and>
   (base \<noteq> [] \<and> \<not> suffix ''//'' base \<and> \<not> prefix ''//'' path \<longrightarrow> joinURL base path = joinBase_spec base path)"
proof -
  have strip: "rev (dropWhile is_slash (rev base)) = (if endsWith_slash base then butlast base else base)"
    if "base \<noteq> []" "\<not> suffix ''//'' base"
  proof (cases base rule: rev_cases)
    case Nil with that show ?thesis by simp
  next
    case (snoc ys y)
    show ?thesis
    proof (cases "y = CHR ''/''")
      case False
      then show ?thesis using snoc by (simp add: endsWith_slash_def is_slash_def)
    next
      case True
      have "ys = [] \<or> last ys \<noteq> CHR ''/''"
      proof (cases ys rule: rev_cases)
        case Nil then show ?thesis by simp
      next
        case (snoc zs z)
        with that(2) \<open>base = ys @ [y]\<close> True show ?thesis
          by (auto simp: suffix_def)
      qed
      then have "dropWhile is_slash (rev ys) = rev ys"
        by (cases ys rule: rev_cases) (auto simp: is_slash_def)
      then show ?thesis using snoc True by (simp add: endsWith_slash_def is_slash_def)
    qed
  qed
  have lead: "''/'' @ dropWhile is_slash path = (if startsWith_slash path then path else CHR ''/'' # path)"
    if "\<not> prefix ''//'' path"
  proof (cases path)
    case Nil then show ?thesis by (simp add: startsWith_slash_def)
  next
    case (Cons c cs)
    show ?thesis
    proof (cases "c = CHR ''/''")
      case False then show ?thesis using Cons by (simp add: startsWith_slash_def is_slash_def)
    next
      case True
      have "cs = [] \<or> hd cs \<noteq> CHR ''/''" using that Cons True by (cases cs) auto
      then have "dropWhile is_slash cs = cs" by (cases cs) (auto simp: is_slash_def)
      then show ?thesis using Cons True by (simp add: startsWith_slash_def is_slash_def)
    qed
  qed
  show ?thesis
    using strip lead by (auto simp: joinURL_def joinBase_spec_def Let_def)
qed

text \<open>
  A base with two trailing slashes keeps one of them: the result has two slashes between
  base and path, where the join described in the specification has one.
\<close>

theorem joinURL_two_trailing_slashes:
  "joinURL ''https://x.test//'' ''/items'' = ''https://x.test//items'' \<and>
   joinBase_spec ''https://x.test//'' ''/items'' = ''https://x.test/items'' \<and>
   joinURL ''https://x.test//'' ''/items'' \<noteq> joinBase_spec ''https://x.test//'' ''/items''"
  by (simp add: joinURL_def joinBase_spec_def endsWith_slash_def startsWith_slash_def is_slash_def)

theorem joinURL_single_slash_witness:
  "''https://x.test/'' \<noteq> [] \<and> \<not> suffix ''//'' ''https://x.test/'' \<and> \<not> prefix ''//'' ''items'' \<and>
   joinURL ''https://x.test/'' ''items'' = ''https://x.test/items''"
  using joinURL_single_slash[of "''https://x.test/''" "''items''"]
  by (simp add: joinBase_spec_def is_slash_def suffix_to_prefix)

subsection \<open>buildQueryString\<close>

lemma sp_set_fresh: "k \<notin> fst ` set sp \<Longrightarrow> sp_set sp k v = sp @ [(k, v)]"
  by (induction sp) auto

lemma foldl_append_entries:
  "foldl (\<lambda>acc item. sp_append acc k (String_js item)) sp items = sp @ map (\<lambda>item. (k, String_js item)) items"
  by (induction items arbitrary: sp) (auto simp: sp_append_def)


lemma entries_step:
  "encodeQuery_entries ((k, v) # q) =
     (if nullish v then [] else (case v of JArr items \<Rightarrow> map (\<lambda>item. (k, String_js item)) items | _ \<Rightarrow> [(k, String_js v)])) @ encodeQuery_entries q"
  by (simp add: encodeQuery_entries_def)

lemma query_loop_step:
  "k \<notin> fst ` set sp \<Longrightarrow>
   query_loop ((k, v) # q) sp =
     query_loop q (sp @ (if nullish v then [] else (case v of JArr items \<Rightarrow> map (\<lambda>item. (k, String_js item)) items | _ \<Rightarrow> [(k, String_js v)])))"
  by (cases v) (simp_all add: sp_set_fresh foldl_append_entries)

lemma step_names:
  "fst ` set (if nullish v then [] else (case v of JArr items \<Rightarrow> map (\<lambda>item. (k, String_js item)) items | _ \<Rightarrow> [(k, String_js v)])) \<subseteq> {k}"
  by (cases v) auto

lemma query_loop_entries:
  "distinct (map fst q) \<Longrightarrow> fst ` set sp \<inter> fst ` set q = {} \<Longrightarrow>
   query_loop q sp = sp @ encodeQuery_entries q"
proof (induction q arbitrary: sp)
  case Nil
  then show ?case by (simp add: encodeQuery_entries_def)
next
  case (Cons kv q)
  obtain k v where kv: "kv = (k, v)" by (cases kv)
  let ?new = "(if nullish v then [] else (case v of JArr items \<Rightarrow> map (\<lambda>item. (k, String_js item)) items | _ \<Rightarrow> [(k, String_js v)]))"
  have fresh: "k \<notin> fst ` set sp" using Cons.prems(2) kv by auto
  have dq: "distinct (map fst q)" and knq: "k \<notin> fst ` set q" using Cons.prems(1) kv by auto
  have "fst ` set sp \<inter> fst ` set q = {}" using Cons.prems(2) by auto
  moreover have "fst ` set ?new \<inter> fst ` set q = {}" using step_names[of v k] knq by blast
  ultimately have "fst ` set (sp @ ?new) \<inter> fst ` set q = {}" by (simp add: image_Un Int_Un_distrib2)
  from Cons.IH[OF dq this] show ?case
    unfolding kv query_loop_step[OF fresh] entries_step by simp
qed

lemma join_with_nonempty: "xs \<noteq> [] \<Longrightarrow> hd xs \<noteq> [] \<Longrightarrow> join_with sep xs \<noteq> []"
  by (induction sep xs rule: join_with.induct) auto

lemma sp_toString_empty: "sp_toString es = [] \<longleftrightarrow> es = []"
proof (cases es)
  case Nil then show ?thesis by (simp add: sp_toString_def)
next
  case (Cons e es')
  obtain k v where "e = (k, v)" by (cases e)
  with Cons have "sp_toString es \<noteq> []"
    unfolding sp_toString_def by (intro join_with_nonempty) auto
  with Cons show ?thesis by simp
qed

text \<open>
  C7: for a query object (its keys are distinct, as the keys of an object are) the query
  string is the one the specification describes: array entries as repeated keys, one pair
  per element; \<open>null\<close> and \<open>undefined\<close> entries left out; other values
  stringified; the empty string, without \<open>?\<close>, when no pair remains. The query
  \<open>{q: "x"}\<close> gives \<open>?q=x\<close>, and the URL of such a call ends in exactly that.
\<close>

theorem buildQueryString_encodes:
  assumes "distinct (map fst q)"
  shows "buildQueryString (JObj q) = encodeQuery_spec q
       \<and> buildQueryString (JObj [(''q'', JStr ''x'')]) = ''?q=x''
       \<and> requestUrl baseUrl path JUndefined (JObj [(''q'', JStr ''x'')]) = Inr (joinURL baseUrl (path @ ''?q=x''))"
proof -
  have loop: "query_loop q [] = encodeQuery_entries q"
    using query_loop_entries[OF assms, of "[]"] by simp
  have general: "buildQueryString (JObj q) = encodeQuery_spec q"
    by (simp add: buildQueryString_def encodeQuery_spec_def loop Let_def sp_toString_empty)
       (simp add: sp_toString_def)
  have ex: "buildQueryString (JObj [(''q'', JStr ''x'')]) = ''?q=x''"
    by code_simp
  have "requestUrl baseUrl path JUndefined (JObj [(''q'', JStr ''x'')]) = Inr (joinURL baseUrl (path @ ''?q=x''))"
    by (simp add: requestUrl_def andThen_def ex)
  with general ex show ?thesis by simp
qed

theorem buildQueryString_encodes_witness:
  "distinct (map fst [(''tag'', JArr [JStr ''a'', JStr ''b c'']), (''n'', JNull), (''page'', JNum 2)])
   \<and> buildQueryString (JObj [(''tag'', JArr [JStr ''a'', JStr ''b c'']), (''n'', JNull), (''page'', JNum 2)])
       = ''?tag=a&tag=b+c&page=2''"
proof -
  have d: "distinct (map fst [(''tag'', JArr [JStr ''a'', JStr ''b c'']), (''n'', JNull), (''page'', JNum 2)])"
    by simp
  have "encodeQuery_spec [(''tag'', JArr [JStr ''a'', JStr ''b c'']), (''n'', JNull), (''page'', JNum 2)]
      = ''?tag=a&tag=b+c&page=2''"
    by code_simp
  with d buildQueryString_encodes[OF d] show ?thesis by simp
qed

subsection \<open>buildPath\<close>











section \<open>Properties of the client\<close>

subsection \<open>Input validation\<close>

lemma checkInput_field:
  "checkInput (field_validator d f) (field_argument args f) (field_message f) key url =
     (if field_fails d args f
      then Inl (ValidationError (new_ValidationError (field_message f) key url Request (field_issues d args f)))
      else Inr (field_value d args f))"
  by (simp add: checkInput_def field_fails_def field_issues_def field_value_def field_result_def
        tryToParse_def split: option.splits sum.splits)

lemma validateInputs_fields:
  "validateInputs d key baseUrl t args =
     (case first_failure d args of
        Some g \<Rightarrow> Inl (ValidationError (new_ValidationError (field_message g) key (baseUrl @ t) Request (field_issues d args g)))
      | None \<Rightarrow> Inr (field_value d args ParamsField, field_value d args QueryField,
                     field_value d args BodyField, field_value d args HeadersField))"
proof -
  note c = checkInput_field[of d _ args key "baseUrl @ t", simplified]
  show ?thesis
    unfolding validateInputs_def
    using c[of ParamsField] c[of QueryField] c[of BodyField] c[of HeadersField]
    by (simp add: andThen_def first_failure_def)
qed






subsection \<open>Where a structured error can come from\<close>

lemma andThen_Inr: "andThen m f = Inr y \<longleftrightarrow> (\<exists>x. m = Inr x \<and> f x = Inr y)"
  by (cases m) (auto simp: andThen_def)

lemma andThen_Inl: "andThen m f = Inl e \<longleftrightarrow> m = Inl e \<or> (\<exists>x. m = Inr x \<and> f x = Inl e)"
  by (cases m) (auto simp: andThen_def)

lemma await_not_structured: "await r = Inl e \<Longrightarrow> \<not> structured e"
  by (cases r) (auto simp: await_def)

lemma getEndpoint_not_structured: "getEndpoint c key = Inl e \<Longrightarrow> \<not> structured e"
  by (auto simp: getEndpoint_def split: option.splits)

lemma parseKey_not_structured: "parseKey key = Inl e \<Longrightarrow> \<not> structured e"
  by (auto simp: parseKey_def split: option.splits)

lemma resolveBaseUrl_not_structured: "resolveBaseUrl b = Inl e \<Longrightarrow> \<not> structured e"
  by (auto simp: resolveBaseUrl_def split: option.splits base_url.splits dest: await_not_structured)

lemma requestUrl_not_structured: "requestUrl baseUrl t p q = Inl e \<Longrightarrow> \<not> structured e"
  by (auto simp: requestUrl_def andThen_Inl buildPath_def Let_def split: if_splits sum.splits)

lemma resolveAuthHeaders_not_structured: "resolveAuthHeaders s = Inl e \<Longrightarrow> \<not> structured e"
  by (auto simp: resolveAuthHeaders_def andThen_Inl split: option.splits auth_strategy.splits
           dest: await_not_structured)

lemma resolveOverrideAuthHeaders_not_structured: "resolveOverrideAuthHeaders ov = Inl e \<Longrightarrow> \<not> structured e"
  by (auto simp: resolveOverrideAuthHeaders_def andThen_Inl split: auth_override.splits token_source.splits
           dest: await_not_structured)

lemma authStep_not_structured: "authStep d a s h = Inl e \<Longrightarrow> \<not> structured e"
  by (auto simp: authStep_def andThen_Inl split: if_splits auth_field.splits
           dest: resolveAuthHeaders_not_structured resolveOverrideAuthHeaders_not_structured)

lemma serializeBody_not_structured: "serializeBody d enc b h = Inl e \<Longrightarrow> \<not> structured e"
  by (auto simp: serializeBody_def andThen_Inl Let_def split: if_splits dest: await_not_structured)

lemma runBefore_not_structured: "runBefore fns key url init = Inl e \<Longrightarrow> \<not> structured e"
  by (induction fns key url init rule: runBefore.induct) (auto split: sum.splits option.splits)

lemma runAfter_not_structured: "runAfter fns key url init r = Inl e \<Longrightarrow> \<not> structured e"
  by (induction fns key url init r rule: runAfter.induct) (auto split: sum.splits option.splits)

lemma validateInputs_Inl:
  "validateInputs d key baseUrl t args = Inl e \<Longrightarrow>
   \<exists>ve. e = ValidationError ve \<and> ve_key ve = key \<and> ve_url ve = baseUrl @ t \<and> ve_kind ve = Request"
  by (auto simp: validateInputs_fields new_ValidationError_def split: option.splits)

lemma prepare_Inr:
  assumes "prepare c options key args = Inr (d, url, init)"
  shows "resolvedUrl c options key args = Inr url \<and> getEndpoint c key = Inr d"
  using assms unfolding prepare_def resolvedUrl_def
  by (auto simp: andThen_Inr split: prod.splits)

lemma prepare_Inl_structured:
  assumes "prepare c options key args = Inl e" "structured e"
  shows "\<exists>ve. e = ValidationError ve \<and> ve_key ve = key \<and> ve_kind ve = Request
              \<and> templateUrl options key = Inr (ve_url ve)"
proof -
  show ?thesis
  proof (cases "getEndpoint c key")
    case (Inl a)
    with assms show ?thesis by (auto simp: prepare_def andThen_def dest: getEndpoint_not_structured)
  next
    case d: (Inr d)
    show ?thesis
    proof (cases "parseKey key")
      case (Inl a)
      with assms d show ?thesis by (auto simp: prepare_def andThen_def dest: parseKey_not_structured)
    next
      case (Inr mt)
      obtain m t where mt: "mt = (m, t)" by (cases mt)
      show ?thesis
      proof (cases "resolveBaseUrl (opt_baseUrl options)")
        case (Inl a)
        with assms d Inr mt show ?thesis
          by (auto simp: prepare_def andThen_def dest: resolveBaseUrl_not_structured)
      next
        case b: (Inr baseUrl)
        show ?thesis
        proof (cases "validateInputs d key baseUrl t args")
          case (Inl a)
          with assms d Inr mt b have "e = a" by (simp add: prepare_def andThen_def)
          with validateInputs_Inl[OF Inl] Inr mt b show ?thesis
            by (auto simp: templateUrl_def andThen_def)
        next
          case v: (Inr vals)
          obtain pv qv bv hv where vals: "vals = (pv, qv, bv, hv)" by (cases vals)
          from assms(1) d Inr mt b v vals
          have "requestUrl baseUrl t pv qv = Inl e \<or>
                (\<exists>h. authStep d (arg_auth args) (opt_auth options) h = Inl e) \<or>
                (\<exists>h. serializeBody d (opt_encodeJson options) bv h = Inl e) \<or>
                (\<exists>u i. runBefore (opt_beforeRequest options) key u i = Inl e)"
            by (auto simp: prepare_def andThen_Inl split: prod.splits)
          with assms(2) show ?thesis
            by (auto dest: requestUrl_not_structured authStep_not_structured
                  serializeBody_not_structured runBefore_not_structured)
        qed
      qed
    qed
  qed
qed

lemma classify_Inl:
  assumes "classify d dec key url r = Inl e"
  shows "(\<exists>ae. e = ApiError ae \<and> ae_key ae = key \<and> ae_url ae = url \<and> \<not> rs_ok r) \<or>
         (\<exists>ve. e = ValidationError ve \<and> ve_key ve = key \<and> ve_url ve = url \<and> ve_kind ve = Response \<and> rs_ok r)"
  using assms
  by (auto simp: classify_def Let_def new_ApiError_def new_ValidationError_def tryToParse_def
           split: if_splits parse_result.splits sum.splits)

lemma call_Inl_structured:
  assumes "fst (call c options key args) = Inl e" "structured e"
  shows "(\<exists>ve. e = ValidationError ve \<and> ve_key ve = key \<and> ve_kind ve = Request
              \<and> templateUrl options key = Inr (ve_url ve)) \<or>
         (\<exists>ve. e = ValidationError ve \<and> ve_key ve = key \<and> ve_kind ve = Response
              \<and> resolvedUrl c options key args = Inr (ve_url ve)) \<or>
         (\<exists>ae. e = ApiError ae \<and> ae_key ae = key \<and> resolvedUrl c options key args = Inr (ae_url ae))"
proof (cases "prepare c options key args")
  case (Inl a)
  with assms(1) have "a = e" by (simp add: call_def)
  with prepare_Inl_structured[OF Inl] assms(2) show ?thesis by blast
next
  case (Inr x)
  obtain d url init where x: "x = (d, url, init)" by (cases x)
  from prepare_Inr Inr x have u: "resolvedUrl c options key args = Inr url" by blast
  show ?thesis
  proof (cases "opt_fetcher options url init")
    case (Inl a)
    with assms Inr x show ?thesis by (auto simp: call_def)
  next
    case r0: (Inr r0)
    show ?thesis
    proof (cases "runAfter (opt_afterResponse options) key url init r0")
      case (Inl a)
      with assms Inr x r0 show ?thesis
        by (auto simp: call_def andThen_def dest: runAfter_not_structured)
    next
      case r: (Inr r)
      with assms(1) Inr x r0 have "classify d (opt_decodeJson options) key url r = Inl e"
        by (simp add: call_def andThen_def)
      from classify_Inl[OF this] u show ?thesis by auto
    qed
  qed
qed

subsection \<open>Key and URL of the structured errors\<close>

text \<open>
  C9, as the code has it: every \<open>ValidationError\<close> and every \<open>ApiError\<close> that
  \<open>call\<close> throws carries the endpoint key. A \<open>ValidationError\<close> of kind
  \<open>response\<close> and an \<open>ApiError\<close> carry the resolved URL of the call (base URL
  joined with the interpolated path and the query string). A \<open>ValidationError\<close> of
  kind \<open>request\<close> carries the base URL and the path template concatenated: not
  joined, not interpolated, without query string.
\<close>

theorem structured_errors_key_and_url:
  "(fst (call c options key args) = Inl (ValidationError ve) \<longrightarrow>
      ve_key ve = key \<and>
      (case ve_kind ve of
         Request \<Rightarrow> templateUrl options key = Inr (ve_url ve)
       | Response \<Rightarrow> resolvedUrl c options key args = Inr (ve_url ve)))
   \<and> (fst (call c options key args) = Inl (ApiError ae) \<longrightarrow>
      ae_key ae = key \<and> resolvedUrl c options key args = Inr (ae_url ae))"
proof -
  have "ve_key ve = key \<and>
      (case ve_kind ve of
         Request \<Rightarrow> templateUrl options key = Inr (ve_url ve)
       | Response \<Rightarrow> resolvedUrl c options key args = Inr (ve_url ve))"
    if "fst (call c options key args) = Inl (ValidationError ve)"
    using call_Inl_structured[OF that] by auto
  moreover have "ae_key ae = key \<and> resolvedUrl c options key args = Inr (ae_url ae)"
    if "fst (call c options key args) = Inl (ApiError ae)"
    using call_Inl_structured[OF that] by auto
  ultimately show ?thesis by blast
qed

text \<open>
  A request \<open>ValidationError\<close> for the body, in a call whose params and query pass
  their validators: the URL of the error still has the sigil \<open>:id\<close> and no query
  string, while the URL built from the validated params and query is
  \<open>https://x.test/items/id/1?q=x\<close>.
\<close>

theorem request_error_url_not_resolved:
  "fst (call put_item_contract (example_options (example_response 200 ''{}'')) ''PUT /items/id/:id''
         put_item_args)
     = Inl (ValidationError
         \<lparr> ve_message = ''Invalid body'', ve_key = ''PUT /items/id/:id'',
           ve_url = ''https://x.test/items/id/:id'', ve_kind = Request,
           ve_issues = JStr ''body issues'' \<rparr>)
   \<and> requestUrl ''https://x.test'' ''/items/id/:id'' (JObj [(''id'', JStr ''1'')]) (JObj [(''q'', JStr ''x'')])
     = Inr ''https://x.test/items/id/1?q=x''"
  by code_simp

lemma ex_request: "fst (call put_item_contract (example_options (example_response 200 ''{}'')) ''PUT /items/id/:id''
         put_item_args)
     = Inl (ValidationError
         \<lparr> ve_message = ''Invalid body'', ve_key = ''PUT /items/id/:id'',
           ve_url = ''https://x.test/items/id/:id'', ve_kind = Request,
           ve_issues = JStr ''body issues'' \<rparr>)"
  by code_simp

lemma ex_api: "fst (call post_items_contract (example_options (example_response 400 ''{\"message\":\"nope\"}''))
          ''POST /items'' (no_args\<lparr>arg_query := JObj [(''q'', JStr ''x'')]\<rparr>))
     = Inl (ApiError
         \<lparr> ae_message = ''API request failed: 400 status'', ae_status = 400, ae_key = ''POST /items'',
           ae_url = ''https://x.test/items'', ae_rawText = Some ''{\"message\":\"nope\"}'',
           ae_rawJson = JObj [(''message'', JStr ''nope'')],
           ae_parsedError = JObj [(''message'', JStr ''nope'')] \<rparr>)"
  by code_simp

lemma ex_response: "fst (call post_items_contract (example_options (example_response 200 ''{}''))
          ''POST /items'' no_args)
     = Inl (ValidationError
         \<lparr> ve_message = ''Response validation failed'', ve_key = ''POST /items'',
           ve_url = ''https://x.test/items'', ve_kind = Response,
           ve_issues = JStr ''id: Required'' \<rparr>)"
  by code_simp

theorem structured_errors_key_and_url_witness:
  "templateUrl (example_options (example_response 200 ''{}'')) ''PUT /items/id/:id''
     = Inr ''https://x.test/items/id/:id''
   \<and> resolvedUrl post_items_contract (example_options (example_response 200 ''{}'')) ''POST /items'' no_args
     = Inr ''https://x.test/items''
   \<and> resolvedUrl post_items_contract (example_options (example_response 400 ''{\"message\":\"nope\"}''))
          ''POST /items'' (no_args\<lparr>arg_query := JObj [(''q'', JStr ''x'')]\<rparr>)
     = Inr ''https://x.test/items''"
  using structured_errors_key_and_url[of put_item_contract "example_options (example_response 200 ''{}'')"
          "''PUT /items/id/:id''" put_item_args
          "\<lparr> ve_message = ''Invalid body'', ve_key = ''PUT /items/id/:id'',
           ve_url = ''https://x.test/items/id/:id'', ve_kind = Request,
           ve_issues = JStr ''body issues'' \<rparr>" undefined]
        structured_errors_key_and_url[of post_items_contract "example_options (example_response 200 ''{}'')"
          "''POST /items''" no_args
          "\<lparr> ve_message = ''Response validation failed'', ve_key = ''POST /items'',
           ve_url = ''https://x.test/items'', ve_kind = Response,
           ve_issues = JStr ''id: Required'' \<rparr>" undefined]
        structured_errors_key_and_url[of post_items_contract "example_options (example_response 400 ''{\"message\":\"nope\"}'')"
          "''POST /items''" "no_args\<lparr>arg_query := JObj [(''q'', JStr ''x'')]\<rparr>" undefined
          "\<lparr> ae_message = ''API request failed: 400 status'', ae_status = 400, ae_key = ''POST /items'',
           ae_url = ''https://x.test/items'', ae_rawText = Some ''{\"message\":\"nope\"}'',
           ae_rawJson = JObj [(''message'', JStr ''nope'')],
           ae_parsedError = JObj [(''message'', JStr ''nope'')] \<rparr>"]
        ex_request ex_response ex_api
  by simp

subsection \<open>Classification of the response\<close>

lemma call_dispatched:
  assumes "prepare c options key args = Inr (d, url, init)"
    and "opt_fetcher options url init = Inr r0"
    and "runAfter (opt_afterResponse options) key url init r0 = Inr r"
  shows "call c options key args = (classify d (opt_decodeJson options) key url r, [(url, init)])"
  using assms by (simp add: call_def andThen_def)


lemma classify_not_ok:
  assumes "\<not> rs_ok r"
  shows "classify d dec key url r =
     Inl (ApiError
       \<lparr> ae_message = ''API request failed: '' @ int_to_dec (rs_status r) @ '' '' @ rs_statusText r,
         ae_status = rs_status r, ae_key = key, ae_url = url,
         ae_rawText = (if rs_text r = [] then None else Some (rs_text r)),
         ae_rawJson = decodeBody dec r,
         ae_parsedError =
           (case ep_error d of
              None \<Rightarrow> JUndefined
            | Some sch \<Rightarrow>
                if decodeBody dec r = JUndefined then JUndefined
                else (case sch (decodeBody dec r) of Inr v \<Rightarrow> v | Inl issues \<Rightarrow> JUndefined)) \<rparr>)"
  using assms
  by (simp add: classify_def Let_def tryToParse_def new_ApiError_def
           split: sum.splits option.splits)

lemma decoded_text_nonempty: "decodeBody dec r \<noteq> JUndefined \<Longrightarrow> rs_text r \<noteq> []"
  by (auto simp: decodeBody_def isLikelyJson_def split: if_splits)

lemma prepare_eval:
  assumes "getEndpoint c key = Inr d"
    and "map_sum id snd (prepare c options key args) = Inr (url, init)"
  shows "prepare c options key args = Inr (d, url, init)"
proof (cases "prepare c options key args")
  case (Inl a)
  with assms(2) show ?thesis by simp
next
  case (Inr x)
  obtain d' u i where x: "x = (d', u, i)" by (cases x)
  with Inr assms(2) have "u = url" "i = init" by simp_all
  moreover from prepare_Inr Inr x have "getEndpoint c key = Inr d'" by blast
  with assms(1) have "d' = d" by simp
  ultimately show ?thesis using Inr x by simp
qed

lemma post_items_endpoint:
  "getEndpoint post_items_contract ''POST /items'' =
     Inr (public_endpoint\<lparr>ep_response := requires_string ''id'',
                          ep_error := Some (requires_string ''message'')\<rparr>)"
  by (simp add: getEndpoint_def post_items_contract_def single_contract_def)

lemma post_items_prepare:
  "prepare post_items_contract (example_options r) ''POST /items'' no_args =
     Inr (public_endpoint\<lparr>ep_response := requires_string ''id'',
                          ep_error := Some (requires_string ''message'')\<rparr>,
          ''https://x.test/items'',
          [(''method'', JStr ''POST''), (''headers'', JObj []), (''body'', JUndefined),
           (''signal'', JUndefined)])"
proof (rule prepare_eval[OF post_items_endpoint])
  show "map_sum id snd (prepare post_items_contract (example_options r) ''POST /items'' no_args) =
    Inr (''https://x.test/items'',
          [(''method'', JStr ''POST''), (''headers'', JObj []), (''body'', JUndefined),
           (''signal'', JUndefined)])"
    by code_simp
qed

lemma example_fetch: "opt_fetcher (example_options r) url init = Inr r"
  by (simp add: example_options_def)

lemma example_no_after: "runAfter (opt_afterResponse (example_options r0)) key url init r = Inr r"
  by (simp add: example_options_def)



text \<open>
  C3, as the code has it: when the response \<open>r\<close> the client goes on with has a
  status outside 200 to 299, the call throws an \<open>ApiError\<close> whose status is the
  status of \<open>r\<close>; \<open>rawText\<close> is the exact body text when that text is not
  empty and is absent when it is empty; \<open>rawJson\<close> is the decoded body, absent when
  nothing was decoded. None of this depends on the error schema.
\<close>

theorem api_error_status_and_body:
  assumes "prepare c options key args = Inr (d, url, init)"
    and "opt_fetcher options url init = Inr r0"
    and "runAfter (opt_afterResponse options) key url init r0 = Inr r"
    and "\<not> rs_ok r"
  shows "\<exists>ae. call c options key args = (Inl (ApiError ae), [(url, init)])
          \<and> ae_status ae = rs_status r
          \<and> ae_rawText ae = (if rs_text r = [] then None else Some (rs_text r))
          \<and> ae_rawJson ae = decodeBody (opt_decodeJson options) r"
  using call_dispatched[OF assms(1-3)] classify_not_ok[OF assms(4)] by simp

theorem api_error_status_and_body_witness:
  "\<exists>ae. call post_items_contract (example_options (example_response 503 ''Service Unavailable''))
            ''POST /items'' no_args
          = (Inl (ApiError ae),
             [(''https://x.test/items'',
               [(''method'', JStr ''POST''), (''headers'', JObj []), (''body'', JUndefined),
                (''signal'', JUndefined)])])
        \<and> ae_status ae = 503 \<and> ae_rawText ae = Some ''Service Unavailable''
        \<and> ae_rawJson ae = JUndefined"
proof -
  have nok: "\<not> rs_ok (example_response 503 t)" for t
    by (simp add: rs_ok_def example_response_def)
  have d: "decodeBody (opt_decodeJson (example_options r)) (example_response 503 ''Service Unavailable'') = JUndefined" for r
    unfolding example_options_def by code_simp
  have t: "rs_text (example_response 503 ''Service Unavailable'') = ''Service Unavailable''"
       "rs_status (example_response 503 ''Service Unavailable'') = 503"
    by (simp_all add: example_response_def)
  from api_error_status_and_body[OF post_items_prepare example_fetch example_no_after
         nok[of "''Service Unavailable''"]]
  show ?thesis
    by (simp add: d t)
qed

text \<open>
  A response with status 500 and an empty body: the body text is the empty string and
  the \<open>ApiError\<close> has no \<open>rawText\<close>.
\<close>

theorem api_error_without_body:
  "fst (call post_items_contract (example_options (example_response 500 [])) ''POST /items'' no_args)
     = Inl (ApiError
         \<lparr> ae_message = ''API request failed: 500 status'', ae_status = 500,
           ae_key = ''POST /items'', ae_url = ''https://x.test/items'',
           ae_rawText = None, ae_rawJson = JUndefined, ae_parsedError = JUndefined \<rparr>)
   \<and> rs_text (example_response 500 []) = []"
  by code_simp

text \<open>
  C4: for a response outside 200 to 299 whose body was decoded as JSON, the
  \<open>parsedError\<close> of the \<open>ApiError\<close> is the value the error schema gives for the
  decoded body when an error schema is declared and accepts it, and is absent
  (\<open>undefined\<close>) when the schema rejects or none is declared; in every case
  \<open>rawJson\<close> is the decoded body and \<open>rawText\<close> is the body text.
\<close>

theorem api_error_parsedError:
  assumes "prepare c options key args = Inr (d, url, init)"
    and "opt_fetcher options url init = Inr r0"
    and "runAfter (opt_afterResponse options) key url init r0 = Inr r"
    and "\<not> rs_ok r"
    and "decodeBody (opt_decodeJson options) r = rawJson"
    and "rawJson \<noteq> JUndefined"
  shows "\<exists>ae. call c options key args = (Inl (ApiError ae), [(url, init)])
          \<and> ae_parsedError ae =
               (case ep_error d of
                  None \<Rightarrow> JUndefined
                | Some sch \<Rightarrow> (case sch rawJson of Inr v \<Rightarrow> v | Inl issues \<Rightarrow> JUndefined))
          \<and> ae_rawJson ae = rawJson
          \<and> ae_rawText ae = Some (rs_text r)"
  using call_dispatched[OF assms(1-3)] classify_not_ok[OF assms(4)] assms(5,6)
    decoded_text_nonempty[of "opt_decodeJson options" r]
  by (auto split: option.splits)

theorem api_error_parsedError_witness:
  "(\<exists>ae. call post_items_contract (example_options (example_response 400 ''{\"message\":\"nope\"}''))
            ''POST /items'' no_args
          = (Inl (ApiError ae),
             [(''https://x.test/items'',
               [(''method'', JStr ''POST''), (''headers'', JObj []), (''body'', JUndefined),
                (''signal'', JUndefined)])])
        \<and> ae_parsedError ae = JObj [(''message'', JStr ''nope'')]
        \<and> ae_rawJson ae = JObj [(''message'', JStr ''nope'')]
        \<and> ae_rawText ae = Some ''{\"message\":\"nope\"}'')
   \<and> (\<exists>ae. call post_items_contract (example_options (example_response 400 ''{\"id\":\"1\"}''))
            ''POST /items'' no_args
          = (Inl (ApiError ae),
             [(''https://x.test/items'',
               [(''method'', JStr ''POST''), (''headers'', JObj []), (''body'', JUndefined),
                (''signal'', JUndefined)])])
        \<and> ae_parsedError ae = JUndefined
        \<and> ae_rawJson ae = JObj [(''id'', JStr ''1'')]
        \<and> ae_rawText ae = Some ''{\"id\":\"1\"}'')"
proof -
  have nok: "\<not> rs_ok (example_response 400 t)" for t
    by (simp add: rs_ok_def example_response_def)
  have d1: "decodeBody (opt_decodeJson (example_options r)) (example_response 400 ''{\"message\":\"nope\"}'')
      = JObj [(''message'', JStr ''nope'')]" for r
    unfolding example_options_def by code_simp
  have d2: "decodeBody (opt_decodeJson (example_options r)) (example_response 400 ''{\"id\":\"1\"}'')
      = JObj [(''id'', JStr ''1'')]" for r
    unfolding example_options_def by code_simp
  have n: "JObj kvs \<noteq> JUndefined" for kvs by simp
  have t: "rs_text (example_response 400 t) = t" for t
    by (simp add: example_response_def)
  from api_error_parsedError[OF post_items_prepare example_fetch example_no_after
         nok[of "''{\"message\":\"nope\"}''"] d1 n]
       api_error_parsedError[OF post_items_prepare example_fetch example_no_after
         nok[of "''{\"id\":\"1\"}''"] d2 n]
  show ?thesis
    by (simp add: public_endpoint_def requires_string_def t)
qed

subsection \<open>Objects, auth headers and the request descriptor\<close>

lemma map_of_set_prop: "map_of (set_prop h k v) = (map_of h)(k \<mapsto> v)"
  by (induction h k v rule: set_prop.induct) (auto simp: fun_eq_iff)



lemma get_prop_set_prop:
  "get_prop (JObj (set_prop h k v)) k' = (if k' = k then v else get_prop (JObj h) k')"
  by (simp add: map_of_set_prop)
























end
